theory Spec2Isabelle
  imports Main "HOL-Library.Word"
begin

section \<open>Scripting values and native failures\<close>

text \<open>
  A value of the scripting engine. Functions and script-owned objects carry the
  identity (address) the engine gave them; two objects with the same properties
  and different identities are different objects. Numbers carry the index they
  were made from (\<open>Value::from_number(ctx, index)\<close> is only applied to
  collection positions here). \<open>Error_value\<close> is the engine's exception
  value, holding its message. A \<open>JSValueRef\<close> that may be \<open>nullptr\<close>
  is a \<open>js_value option\<close>.
\<close>

datatype js_value =
    Undefined
  | Number nat
  | Str string
  | Array "js_value list"
  | Function nat
  | Object nat "(string \<times> js_value) list"
  | Error_value string

text \<open>
  What native code can throw: the two \<open>std::exception\<close> subclasses the
  sources catch by name, any other \<open>std::exception\<close>, and a thrown value that
  is not a \<open>std::exception\<close> at all (what \<open>catch (...)\<close> alone catches).
\<close>

datatype native_exception =
    Out_of_range string
  | Invalid_argument string
  | Std_exception string
  | Unknown_exception

text \<open>\<open>e.what()\<close>, for the exceptions that \<open>catch (std::exception &e)\<close> catches.\<close>

fun what :: "native_exception \<Rightarrow> string option" where
  "what (Out_of_range m) = Some m"
| "what (Invalid_argument m) = Some m"
| "what (Std_exception m) = Some m"
| "what Unknown_exception = None"

section \<open>Engine primitives used by the collection bridge\<close>

text \<open>
  Modelled from the spec: the engine's value and object primitives
  (\<open>js_types.hpp\<close>) are not among the sources. The spec lists what this
  layer consumes from the scripting engine host: creating an array or object
  value, getting and setting a named property, and calling a function value with
  a receiver and an argument list.

  The engine context: the only part of it the model reads is the identity the
  engine gives to the next object it allocates.
\<close>

record js_context =
  next_object :: nat

definition Value_from_number :: "nat \<Rightarrow> js_value" where
  "Value_from_number index = Number index"

definition Value_from_string :: "string \<Rightarrow> js_value" where
  "Value_from_string s = Str s"

definition Object_create_array :: "js_value list \<Rightarrow> js_value" where
  "Object_create_array scratch = Array scratch"

definition Object_create_empty :: "js_context \<Rightarrow> js_value" where
  "Object_create_empty ctx = Object (next_object ctx) []"

text \<open>Storing a property: an existing name keeps its place, a new name goes last.\<close>

fun update_property :: "(string \<times> js_value) list \<Rightarrow> string \<Rightarrow> js_value \<Rightarrow> (string \<times> js_value) list" where
  "update_property [] name v = [(name, v)]"
| "update_property ((k, w) # ps) name v =
     (if k = name then (k, v) # ps else (k, w) # update_property ps name v)"

fun Object_set_property :: "js_value \<Rightarrow> string \<Rightarrow> js_value \<Rightarrow> js_value" where
  "Object_set_property (Object i ps) name v = Object i (update_property ps name v)"
| "Object_set_property other name v = other"

fun Object_get_property :: "js_value \<Rightarrow> string \<Rightarrow> js_value" where
  "Object_get_property (Object i ps) name =
     (case map_of ps name of None \<Rightarrow> Undefined | Some v \<Rightarrow> v)"
| "Object_get_property other name = Undefined"

fun Value_is_function :: "js_value \<Rightarrow> bool" where
  "Value_is_function (Function i) = True"
| "Value_is_function other = False"

fun Value_is_undefined :: "js_value \<Rightarrow> bool" where
  "Value_is_undefined Undefined = True"
| "Value_is_undefined other = False"

text \<open>
  The validating conversions throw when the value has the wrong type. Their
  messages are not part of the sources under study; the model keeps the name
  they were given, if any. The objects a listener can be are the script-owned
  ones, which have an identity.
\<close>

fun Value_validated_to_function :: "js_value \<Rightarrow> string \<Rightarrow> native_exception + js_value" where
  "Value_validated_to_function (Function i) name = Inr (Function i)"
| "Value_validated_to_function other name = Inl (Std_exception name)"

fun Value_validated_to_object :: "js_value \<Rightarrow> native_exception + js_value" where
  "Value_validated_to_object (Object i ps) = Inr (Object i ps)"
| "Value_validated_to_object (Function i) = Inr (Function i)"
| "Value_validated_to_object other = Inl (Std_exception [])"

text \<open>
  One call the bridge makes into the engine: \<open>Function<T>::call(ctx, function,
  this, argc, arguments)\<close>. The callee is the function reference as the bridge
  passes it; an empty \<open>Protected<FunctionType>\<close> is \<open>None\<close>. What the bridge
  does is the list of calls it makes, in order.
\<close>

datatype invocation =
  Invocation (callee: "js_value option") (receiver: js_value) (arguments: "js_value list")

definition Function_call :: "js_value option \<Rightarrow> js_value \<Rightarrow> js_value list \<Rightarrow> invocation list" where
  "Function_call function this_object args = [Invocation function this_object args]"

section \<open>Change sets\<close>

text \<open>
  Modelled from the spec: \<open>IndexSet\<close> and \<open>CollectionChangeSet\<close> are declared in
  \<open>collection_notifications.hpp\<close>, which is not among the sources. The spec has a
  change set as four index sets, each a monotonically increasing, de-duplicated
  sequence of non-negative integers; \<open>as_indexes\<close> yields that sequence.
\<close>

datatype IndexSet = IndexSet (as_indexes: "nat list")

record CollectionChangeSet =
  deletions :: IndexSet
  insertions :: IndexSet
  modifications :: IndexSet
  modifications_new :: IndexSet

section \<open>\<open>CollectionClass::create_collection_change_set\<close>\<close>

text \<open>
  The lambda \<open>create_array\<close>: clear the scratch vector, push one number per
  index, and store the array under the given name.
\<close>

fun push_indices :: "js_value list \<Rightarrow> nat list \<Rightarrow> js_value list" where
  "push_indices scratch [] = scratch"
| "push_indices scratch (index # indices) =
     push_indices (scratch @ [Value_from_number index]) indices"

definition create_array :: "js_value \<Rightarrow> nat list \<Rightarrow> string \<Rightarrow> js_value" where
  "create_array object indices name =
     Object_set_property object name (Object_create_array (push_indices [] indices))"

definition create_collection_change_set :: "js_context \<Rightarrow> CollectionChangeSet \<Rightarrow> js_value" where
  "create_collection_change_set ctx change_set =
     (let object = Object_create_empty ctx;
          object = create_array object (as_indexes (deletions change_set)) ''deletions'';
          object = create_array object (as_indexes (insertions change_set)) ''insertions'';
          object = create_array object (as_indexes (modifications change_set)) ''modifications''
      in object)"

section \<open>\<open>ObservableCollection\<close>: listeners\<close>

text \<open>
  The hook-object listener, \<open>struct Callback\<close> of \<open>add_listener\<close>. A hook
  that was never stored is an empty function reference.
\<close>

record Callback =
  protected_this :: js_value
  before_fn :: "js_value option"
  after_fn :: "js_value option"
  error_fn :: "js_value option"

definition to_array :: "IndexSet \<Rightarrow> js_value" where
  "to_array index_set = Object_create_array (push_indices [] (as_indexes index_set))"

definition before :: "Callback \<Rightarrow> CollectionChangeSet \<Rightarrow> invocation list" where
  "before cb changes =
     Function_call (before_fn cb) (protected_this cb)
       [protected_this cb, to_array (deletions changes), to_array (modifications changes)]"

definition after :: "Callback \<Rightarrow> CollectionChangeSet \<Rightarrow> invocation list" where
  "after cb changes =
     Function_call (after_fn cb) (protected_this cb)
       [protected_this cb, to_array (insertions changes), to_array (modifications_new changes)]"

text \<open>
  \<open>Callback::error\<close> rethrows the failure: the first handler takes a
  \<open>std::exception\<close> and passes \<open>e.what()\<close>, the second takes everything else.
\<close>

definition error :: "Callback \<Rightarrow> native_exception \<Rightarrow> invocation list" where
  "error cb exception =
     (case what exception of
        Some message \<Rightarrow>
          Function_call (error_fn cb) (protected_this cb)
            [protected_this cb, Value_from_string message]
      | None \<Rightarrow>
          Function_call (error_fn cb) (protected_this cb)
            [protected_this cb, Value_from_string ''unknown error''])"

text \<open>
  The simple-callback listener: the lambda of \<open>add_listener\<close>, with the
  function and the instance it captured. It does not look at the exception.
\<close>

definition simple_callback ::
  "js_context \<Rightarrow> js_value \<Rightarrow> js_value \<Rightarrow> CollectionChangeSet \<Rightarrow> native_exception option \<Rightarrow> invocation list" where
  "simple_callback protected_ctx protected_callback this_object change_set exception =
     Function_call (Some protected_callback) this_object
       [this_object, create_collection_change_set protected_ctx change_set]"

text \<open>
  What \<open>add_listener\<close> hands to the change source: the lambda with the
  function and the instance it captured, or the hook object's \<open>Callback\<close>.
\<close>

datatype notification_callback =
    Lambda_callback (captured_callback: js_value) (captured_this: js_value)
  | Hook_callback Callback

text \<open>
  Modelled from the spec: the change source (\<open>add_notification_callback\<close> of the
  parent collection, and what it does with the callback it is given) is not among
  the sources. The spec has it hand out a token per subscription, deliver a change
  set to a hook object as \<open>before\<close> then \<open>after\<close>, and deliver a failure of the
  pipeline to the \<open>error\<close> hook.
\<close>

record NotificationToken =
  token_id :: nat
  subscribed :: notification_callback

datatype notification = Changes CollectionChangeSet | Failure native_exception

fun deliver :: "Callback \<Rightarrow> notification \<Rightarrow> invocation list" where
  "deliver cb (Changes changes) = before cb changes @ after cb changes"
| "deliver cb (Failure exception) = error cb exception"

record ObservableCollection =
  m_notification_tokens :: "(js_value \<times> NotificationToken) list"
  next_token :: nat

definition add_notification_callback ::
  "ObservableCollection \<Rightarrow> notification_callback \<Rightarrow> NotificationToken \<times> ObservableCollection" where
  "add_notification_callback c cb =
     (\<lparr>token_id = next_token c, subscribed = cb\<rparr>, c\<lparr>next_token := Suc (next_token c)\<rparr>)"

text \<open>
  The lambda \<open>get_function\<close>: a member that is undefined leaves the slot as it
  was; any other member must be a function.
\<close>

definition get_function :: "js_value \<Rightarrow> js_value option \<Rightarrow> string \<Rightarrow> native_exception + js_value option" where
  "get_function obj fn name =
     (let v = Object_get_property obj name in
      if \<not> Value_is_undefined v then
        (case Value_validated_to_function v name of
           Inl e \<Rightarrow> Inl e
         | Inr function \<Rightarrow> Inr (Some function))
      else Inr fn)"

definition emplace_back ::
  "ObservableCollection \<Rightarrow> js_value \<Rightarrow> NotificationToken \<Rightarrow> ObservableCollection" where
  "emplace_back c protected_object token =
     c\<lparr>m_notification_tokens := m_notification_tokens c @ [(protected_object, token)]\<rparr>"

definition add_listener ::
  "ObservableCollection \<Rightarrow> js_value \<Rightarrow> js_value \<Rightarrow> native_exception + ObservableCollection" where
  "add_listener c this_object v =
     (if Value_is_function v then
        (case Value_validated_to_function v [] of
           Inl e \<Rightarrow> Inl e
         | Inr callback \<Rightarrow>
             (let (token, c') = add_notification_callback c (Lambda_callback callback this_object)
              in Inr (emplace_back c' callback token)))
      else
        (case Value_validated_to_object v of
           Inl e \<Rightarrow> Inl e
         | Inr obj \<Rightarrow>
             (case get_function obj None ''before'' of
                Inl e \<Rightarrow> Inl e
              | Inr b \<Rightarrow>
                  (case get_function obj None ''after'' of
                     Inl e \<Rightarrow> Inl e
                   | Inr a \<Rightarrow>
                       (case get_function obj None ''error'' of
                          Inl e \<Rightarrow> Inl e
                        | Inr r \<Rightarrow>
                            (let callback = \<lparr>protected_this = this_object, before_fn = b,
                                              after_fn = a, error_fn = r\<rparr>;
                                 (token, c') = add_notification_callback c (Hook_callback callback)
                             in Inr (emplace_back c' obj token)))))))"

text \<open>
  Modelled from the spec: \<open>Protected<ObjectType>::Comparator\<close> is declared with
  the protected references, which are not among the sources. The spec makes a
  protected reference identity-comparable: two references are equal when they
  refer to the same engine object.
\<close>

fun identity :: "js_value \<Rightarrow> nat option" where
  "identity (Function i) = Some i"
| "identity (Object i ps) = Some i"
| "identity other = None"

definition compare :: "js_value \<Rightarrow> js_value \<Rightarrow> bool" where
  "compare a b = (identity a = identity b)"

text \<open>\<open>std::remove_if\<close> followed by \<open>erase\<close>: what is kept stays in order.\<close>

fun remove_if :: "('a \<Rightarrow> bool) \<Rightarrow> 'a list \<Rightarrow> 'a list" where
  "remove_if p [] = []"
| "remove_if p (x # xs) = (if p x then remove_if p xs else x # remove_if p xs)"

definition remove_listener :: "ObservableCollection \<Rightarrow> js_value \<Rightarrow> ObservableCollection" where
  "remove_listener c protected_function =
     c\<lparr>m_notification_tokens :=
         remove_if (\<lambda>token. compare (fst token) protected_function) (m_notification_tokens c)\<rparr>"

definition remove_all_listeners :: "ObservableCollection \<Rightarrow> ObservableCollection" where
  "remove_all_listeners c = c\<lparr>m_notification_tokens := []\<rparr>"

text \<open>
  The removal as the specification words it: only the first pair whose reference
  is the given one goes.
\<close>

fun remove_first_if :: "('a \<Rightarrow> bool) \<Rightarrow> 'a list \<Rightarrow> 'a list" where
  "remove_first_if p [] = []"
| "remove_first_if p (x # xs) = (if p x then xs else x # remove_first_if p xs)"

definition remove_listener_spec :: "ObservableCollection \<Rightarrow> js_value \<Rightarrow> ObservableCollection" where
  "remove_listener_spec c protected_function =
     c\<lparr>m_notification_tokens :=
         remove_first_if (\<lambda>token. compare (fst token) protected_function) (m_notification_tokens c)\<rparr>"

section \<open>The engine's callback ABI\<close>

text \<open>
  How a callback registered with the engine ends: it returns a result, having
  written an exception value to the \<open>JSValueRef* exception\<close> slot or left
  the slot alone (\<open>None\<close>), or a native exception leaves it and unwinds into
  the engine.
\<close>

datatype 'a abi = Abi_return 'a "js_value option" | Unwinds native_exception

definition Value_from_undefined :: js_value where
  "Value_from_undefined = Undefined"

text \<open>
  Modelled from the spec: \<open>jsc::Exception::value\<close> is declared with the engine
  types, which are not among the sources. The spec maps a native failure to an
  engine error carrying the failure's message.
\<close>

definition Exception_value :: "string \<Rightarrow> js_value" where
  "Exception_value message = Error_value message"

text \<open>
  The handler every trampoline shares, \<open>catch (std::exception &e) { *exception =
  jsc::Exception::value(ctx, e); }\<close>, followed by the trampoline's return: a
  thrown value that is not a \<open>std::exception\<close> is not caught.
\<close>

definition catch_std_exception :: "'a \<Rightarrow> native_exception \<Rightarrow> 'a abi" where
  "catch_std_exception returned e =
     (case what e of
        Some message \<Rightarrow> Abi_return returned (Some (Exception_value message))
      | None \<Rightarrow> Unwinds e)"

text \<open>
  Decimal digits, as \<open>sprintf(string, "%u", i)\<close> and \<open>util::to_string(index)\<close>
  write an unsigned number.
\<close>

definition digit :: "nat \<Rightarrow> char" where
  "digit n = ''0123456789'' ! (n mod 10)"

fun to_decimal :: "nat \<Rightarrow> string" where
  "to_decimal n = (if n < 10 then [digit n] else to_decimal (n div 10) @ [digit n])"

declare to_decimal.simps [simp del]

section \<open>Dispatch trampolines: \<open>js::wrap\<close>\<close>

text \<open>
  A typed native callback that fills a \<open>ReturnValue\<close> ends with the holder's
  content and with the exception it threw, if any. One that changes the native
  object ends with the object as it left it.
\<close>

type_synonym holder = "js_value option \<times> native_exception option"

definition wrap_method ::
  "('n \<Rightarrow> js_value list \<Rightarrow> holder) \<Rightarrow> 'n \<Rightarrow> js_value list \<Rightarrow> js_value option abi" where
  "wrap_method F this_object args =
     (case F this_object args of
        (return_value, None) \<Rightarrow> Abi_return return_value None
      | (return_value, Some e) \<Rightarrow> catch_std_exception return_value e)"

definition wrap_property_getter ::
  "('n \<Rightarrow> holder) \<Rightarrow> 'n \<Rightarrow> string \<Rightarrow> js_value option abi" where
  "wrap_property_getter F object property =
     (case F object of
        (return_value, None) \<Rightarrow> Abi_return return_value None
      | (return_value, Some e) \<Rightarrow> catch_std_exception return_value e)"

definition wrap_property_setter ::
  "('n \<Rightarrow> js_value \<Rightarrow> 'n \<times> native_exception option) \<Rightarrow> 'n \<Rightarrow> string \<Rightarrow> js_value \<Rightarrow> 'n \<times> bool abi" where
  "wrap_property_setter F object property v =
     (case F object v of
        (object', None) \<Rightarrow> (object', Abi_return True None)
      | (object', Some e) \<Rightarrow> (object', catch_std_exception False e))"

definition wrap_index_getter ::
  "('n \<Rightarrow> 32 word \<Rightarrow> holder) \<Rightarrow> 'n \<Rightarrow> 32 word \<Rightarrow> js_value option abi" where
  "wrap_index_getter F object index =
     (case F object index of
        (return_value, None) \<Rightarrow> Abi_return return_value None
      | (return_value, Some (Out_of_range m)) \<Rightarrow> Abi_return (Some Value_from_undefined) None
      | (return_value, Some e) \<Rightarrow> catch_std_exception return_value e)"

definition wrap_index_setter ::
  "('n \<Rightarrow> 32 word \<Rightarrow> js_value \<Rightarrow> 'n \<times> (native_exception + bool)) \<Rightarrow>
   'n \<Rightarrow> 32 word \<Rightarrow> js_value \<Rightarrow> 'n \<times> bool abi" where
  "wrap_index_setter F object index v =
     (case F object index v of
        (object', Inr result) \<Rightarrow> (object', Abi_return result None)
      | (object', Inl e) \<Rightarrow> (object', catch_std_exception False e))"

definition wrap_string_getter ::
  "('n \<Rightarrow> string \<Rightarrow> holder) \<Rightarrow> 'n \<Rightarrow> string \<Rightarrow> js_value option abi" where
  "wrap_string_getter F object property =
     (case F object property of
        (return_value, None) \<Rightarrow> Abi_return return_value None
      | (return_value, Some e) \<Rightarrow> catch_std_exception return_value e)"

definition wrap_string_setter ::
  "('n \<Rightarrow> string \<Rightarrow> js_value \<Rightarrow> 'n \<times> (native_exception + bool)) \<Rightarrow>
   'n \<Rightarrow> string \<Rightarrow> js_value \<Rightarrow> 'n \<times> bool abi" where
  "wrap_string_setter F object property v =
     (case F object property v of
        (object', Inr result) \<Rightarrow> (object', Abi_return result None)
      | (object', Inl e) \<Rightarrow> (object', catch_std_exception False e))"

text \<open>
  The enumerator's ABI has no exception slot and no result: the trampoline ends
  with the accumulator, or with the exception that left it. It has no handler.
\<close>

fun add_names :: "string list \<Rightarrow> string list \<Rightarrow> string list" where
  "add_names accumulator [] = accumulator"
| "add_names accumulator (name # names) = add_names (accumulator @ [name]) names"

definition wrap_string_enumerator ::
  "('n \<Rightarrow> native_exception + string list) \<Rightarrow> 'n \<Rightarrow> string list \<Rightarrow> native_exception + string list" where
  "wrap_string_enumerator F object accumulator =
     (case F object of
        Inl e \<Rightarrow> Inl e
      | Inr names \<Rightarrow> Inr (add_names accumulator names))"

section \<open>\<open>jsc::ObjectWrap\<close>\<close>

text \<open>
  The wrapped instance: \<open>std::unique_ptr<T> m_object\<close>, the address of the
  native object it owns or \<open>nullptr\<close>.
\<close>

record ObjectWrap =
  m_object :: "nat option"

text \<open>
  The class descriptor \<open>s_class\<close>, with the callbacks as the engine's ABI has
  them. \<open>'n\<close> is the native state behind an instance: setters return it as they
  left it.
\<close>

record 'n PropertyType =
  getter :: "'n \<Rightarrow> string \<Rightarrow> js_value option abi"
  setter :: "('n \<Rightarrow> string \<Rightarrow> js_value \<Rightarrow> 'n \<times> bool abi) option"

record 'n ObjectClass =
  constructor :: "(ObjectWrap \<Rightarrow> js_value list \<Rightarrow> ObjectWrap \<times> native_exception option) option"
  properties :: "(string \<times> 'n PropertyType) list"
  index_accessor_getter :: "('n \<Rightarrow> 32 word \<Rightarrow> js_value option abi) option"
  index_accessor_setter :: "('n \<Rightarrow> 32 word \<Rightarrow> js_value \<Rightarrow> 'n \<times> bool abi) option"
  string_accessor_getter :: "('n \<Rightarrow> string \<Rightarrow> js_value option abi) option"
  string_accessor_setter :: "('n \<Rightarrow> string \<Rightarrow> js_value \<Rightarrow> 'n \<times> bool abi) option"
  string_accessor_enumerator :: "('n \<Rightarrow> string list \<Rightarrow> native_exception + string list) option"

definition create :: "nat option \<Rightarrow> ObjectWrap" where
  "create internal = \<lparr>m_object = internal\<rparr>"

text \<open>
  \<open>construct\<close>: the result is the new instance (\<open>nullptr\<close> when the class has no
  constructor), as the constructor callback left it.
\<close>

definition construct :: "'n ObjectClass \<Rightarrow> js_value list \<Rightarrow> ObjectWrap option abi" where
  "construct s_class args =
     (case constructor s_class of
        None \<Rightarrow> Abi_return None (Some (Exception_value ''Illegal constructor''))
      | Some native_constructor \<Rightarrow>
          (let this_object = create None in
           case native_constructor this_object args of
             (this_object', None) \<Rightarrow> Abi_return (Some this_object') None
           | (this_object', Some e) \<Rightarrow> catch_std_exception (Some this_object') e))"

text \<open>
  \<open>get_property\<close>. \<open>validated_positive_index\<close> belongs to \<open>js_util.hpp\<close>,
  which is not among the sources, so it is a parameter: it gives the index a
  property name stands for, or throws. The \<open>try\<close> block covers the index
  getter too.
\<close>

definition get_property ::
  "(string \<Rightarrow> native_exception + 32 word) \<Rightarrow> 'n ObjectClass \<Rightarrow> 'n \<Rightarrow> string \<Rightarrow> js_value option abi" where
  "get_property validated_positive_index s_class object property =
     (let by_name =
            (case string_accessor_getter s_class of
               Some string_getter \<Rightarrow> string_getter object property
             | None \<Rightarrow> Abi_return None None);
          caught = (\<lambda>e. case e of
               Out_of_range m \<Rightarrow> Abi_return (Some Value_from_undefined) None
             | Invalid_argument m \<Rightarrow> by_name
             | _ \<Rightarrow> Unwinds e)
      in case index_accessor_getter s_class of
           None \<Rightarrow> by_name
         | Some index_getter \<Rightarrow>
             (case validated_positive_index property of
                Inl e \<Rightarrow> caught e
              | Inr index \<Rightarrow>
                  (case index_getter object index of
                     Unwinds e \<Rightarrow> caught e
                   | Abi_return result exception \<Rightarrow> Abi_return result exception)))"





text \<open>
  \<open>get_property_names\<close>. The loop adds the decimal names \<open>0\<close> to
  \<open>length - 1\<close>; its counter stays below \<open>length\<close>, so it never wraps.
  \<open>Object::validated_get_length\<close> belongs to the engine types, which are not
  among the sources, so it is a parameter: the instance's length, or a throw.
\<close>

function add_index_names :: "nat \<Rightarrow> nat \<Rightarrow> string list \<Rightarrow> string list" where
  "add_index_names i len accumulator =
     (if i < len then add_index_names (Suc i) len (accumulator @ [to_decimal i])
      else accumulator)"
  by pat_completeness auto
termination
  by (relation "measure (\<lambda>(i, len, accumulator). len - i)") auto

declare add_index_names.simps [simp del]

definition get_property_names ::
  "('n \<Rightarrow> native_exception + 32 word) \<Rightarrow> 'n ObjectClass \<Rightarrow> 'n \<Rightarrow> string list \<Rightarrow>
   native_exception + string list" where
  "get_property_names validated_get_length s_class object accumulator =
     (let indexed =
            (case index_accessor_getter s_class of
               None \<Rightarrow> Inr accumulator
             | Some index_getter \<Rightarrow>
                 (case validated_get_length object of
                    Inr len \<Rightarrow> Inr (add_index_names 0 (unat len) accumulator)
                  | Inl e \<Rightarrow>
                      (case what e of Some message \<Rightarrow> Inr accumulator | None \<Rightarrow> Inl e)))
      in case indexed of
           Inl e \<Rightarrow> Inl e
         | Inr accumulator' \<Rightarrow>
             (case string_accessor_enumerator s_class of
                Some string_enumerator \<Rightarrow> string_enumerator object accumulator'
              | None \<Rightarrow> Inr accumulator'))"

text \<open>
  \<open>operator=(T* object)\<close>. Assigning to a \<open>unique_ptr\<close> deletes the object it
  owned, if it owned one; the second component lists the addresses deleted so
  far, in order.
\<close>

definition unique_ptr_assign :: "nat option \<Rightarrow> nat list \<Rightarrow> nat option \<Rightarrow> nat option \<times> nat list" where
  "unique_ptr_assign owned deleted object =
     (object, case owned of None \<Rightarrow> deleted | Some old \<Rightarrow> deleted @ [old])"

definition assign :: "ObjectWrap \<times> nat list \<Rightarrow> nat option \<Rightarrow> ObjectWrap \<times> nat list" where
  "assign state object =
     (let (wrap, deleted) = state in
      if m_object wrap \<noteq> object then
        (let (owned, deleted') = unique_ptr_assign (m_object wrap) deleted object
         in (wrap\<lparr>m_object := owned\<rparr>, deleted'))
      else (wrap, deleted))"

section \<open>Properties of the collection bridge\<close>

lemma push_indices_append: "push_indices scratch indices = scratch @ map Number indices"
  by (induction indices arbitrary: scratch) (simp_all add: Value_from_number_def)

lemma to_array_numbers: "to_array s = Array (map Number (as_indexes s))"
  by (simp add: to_array_def Object_create_array_def push_indices_append)

lemma create_collection_change_set_object:
  "create_collection_change_set ctx cs =
     Object (next_object ctx)
       [(''deletions'', Array (map Number (as_indexes (deletions cs)))),
        (''insertions'', Array (map Number (as_indexes (insertions cs)))),
        (''modifications'', Array (map Number (as_indexes (modifications cs))))]"
  by (simp add: create_collection_change_set_def create_array_def Object_create_empty_def
      Object_create_array_def push_indices_append)

lemma remove_if_filter: "remove_if p xs = filter (\<lambda>x. \<not> p x) xs"
  by (induction xs) simp_all

lemma remove_first_if_single:
  "length (filter p xs) \<le> 1 \<Longrightarrow> remove_first_if p xs = remove_if p xs"
proof (induction xs)
  case Nil
  then show ?case by simp
next
  case (Cons x xs)
  show ?case
  proof (cases "p x")
    case True
    with Cons.prems have "filter p xs = []" by simp
    then have "remove_if p xs = xs"
      by (simp add: remove_if_filter filter_empty_conv filter_id_conv)
    with True show ?thesis by simp
  next
    case False
    with Cons show ?thesis by simp
  qed
qed

text \<open>
  Claim C1, as the code has it. \<open>remove_listener f\<close> removes every registration
  whose stored reference is the engine object \<open>f\<close> refers to, and keeps all the
  others in their order; the match is by identity of the reference, never by the
  properties of the object. When \<open>f\<close> is registered at most once, this is the
  removal of the first match that the specification describes.
\<close>

theorem remove_listener_removes_every_match:
  "m_notification_tokens (remove_listener c f) =
     filter (\<lambda>token. identity (fst token) \<noteq> identity f) (m_notification_tokens c)
   \<and> next_token (remove_listener c f) = next_token c
   \<and> (length (filter (\<lambda>token. identity (fst token) = identity f) (m_notification_tokens c)) \<le> 1
        \<longrightarrow> remove_listener c f = remove_listener_spec c f)"
  by (simp add: remove_listener_def remove_listener_spec_def remove_if_filter compare_def
      remove_first_if_single)

theorem remove_listener_removes_every_match_witness:
  "length (filter (\<lambda>token. identity (fst token) = identity (Object 7 []))
      [(Object 7 [], \<lparr>token_id = 0, subscribed = Lambda_callback (Function 3) (Object 1 [])\<rparr>),
       (Object 8 [], \<lparr>token_id = 1, subscribed = Lambda_callback (Function 3) (Object 1 [])\<rparr>)]) \<le> 1
   \<and> remove_listener_spec
        \<lparr>m_notification_tokens =
           [(Object 7 [], \<lparr>token_id = 0, subscribed = Lambda_callback (Function 3) (Object 1 [])\<rparr>),
            (Object 8 [], \<lparr>token_id = 1, subscribed = Lambda_callback (Function 3) (Object 1 [])\<rparr>)],
         next_token = 2\<rparr> (Object 7 []) =
      remove_listener
        \<lparr>m_notification_tokens =
           [(Object 7 [], \<lparr>token_id = 0, subscribed = Lambda_callback (Function 3) (Object 1 [])\<rparr>),
            (Object 8 [], \<lparr>token_id = 1, subscribed = Lambda_callback (Function 3) (Object 1 [])\<rparr>)],
         next_token = 2\<rparr> (Object 7 [])
   \<and> m_notification_tokens
        (remove_listener
          \<lparr>m_notification_tokens =
             [(Object 7 [], \<lparr>token_id = 0, subscribed = Lambda_callback (Function 3) (Object 1 [])\<rparr>),
              (Object 8 [], \<lparr>token_id = 1, subscribed = Lambda_callback (Function 3) (Object 1 [])\<rparr>)],
           next_token = 2\<rparr> (Object 7 [])) =
      [(Object 8 [], \<lparr>token_id = 1, subscribed = Lambda_callback (Function 3) (Object 1 [])\<rparr>)]"
  using remove_listener_removes_every_match
    [of "\<lparr>m_notification_tokens =
           [(Object 7 [], \<lparr>token_id = 0, subscribed = Lambda_callback (Function 3) (Object 1 [])\<rparr>),
            (Object 8 [], \<lparr>token_id = 1, subscribed = Lambda_callback (Function 3) (Object 1 [])\<rparr>)],
         next_token = 2\<rparr>" "Object 7 []"]
  by (simp add: remove_listener_spec_def compare_def)

text \<open>
  Claim C1, as it is stated, fails when the same function is registered twice:
  the code removes both registrations, where the removal of the first match
  alone would keep the second.
\<close>

theorem remove_listener_counterexample:
  "m_notification_tokens
     (remove_listener
        \<lparr>m_notification_tokens =
           [(Function 7, \<lparr>token_id = 0, subscribed = Lambda_callback (Function 7) (Object 1 [])\<rparr>),
            (Function 7, \<lparr>token_id = 1, subscribed = Lambda_callback (Function 7) (Object 1 [])\<rparr>)],
         next_token = 2\<rparr>
        (Function 7)) = []
   \<and> m_notification_tokens
     (remove_listener_spec
        \<lparr>m_notification_tokens =
           [(Function 7, \<lparr>token_id = 0, subscribed = Lambda_callback (Function 7) (Object 1 [])\<rparr>),
            (Function 7, \<lparr>token_id = 1, subscribed = Lambda_callback (Function 7) (Object 1 [])\<rparr>)],
         next_token = 2\<rparr>
        (Function 7)) =
      [(Function 7, \<lparr>token_id = 1, subscribed = Lambda_callback (Function 7) (Object 1 [])\<rparr>)]"
  by (simp add: remove_listener_def remove_listener_spec_def compare_def)

text \<open>
  Claim C2. Registering a function with \<open>add_listener\<close> stores the function
  with a token for the lambda that captured it and the instance. Given a change
  set, the lambda makes exactly one call: the function, with the instance as
  receiver and two arguments, the instance and a fresh object whose only
  properties are \<open>deletions\<close>, \<open>insertions\<close> and \<open>modifications\<close>, each the array
  of the numbers \<open>as_indexes\<close> yields, in that order (ascending, by the
  invariant of an index set). For deletions \<open>[2]\<close> and insertions \<open>[0, 1]\<close> the
  arrays are \<open>[2]\<close>, \<open>[0, 1]\<close> and \<open>[]\<close>.
\<close>

theorem simple_callback_change_set:
  "simple_callback ctx f this_object cs exn =
     [Invocation (Some f) this_object
        [this_object,
         Object (next_object ctx)
           [(''deletions'', Array (map Number (as_indexes (deletions cs)))),
            (''insertions'', Array (map Number (as_indexes (insertions cs)))),
            (''modifications'', Array (map Number (as_indexes (modifications cs))))]]]
   \<and> add_listener c this_object (Function i) =
       Inr \<lparr>m_notification_tokens = m_notification_tokens c @
              [(Function i, \<lparr>token_id = next_token c,
                              subscribed = Lambda_callback (Function i) this_object\<rparr>)],
            next_token = Suc (next_token c)\<rparr>
   \<and> simple_callback ctx f this_object
        \<lparr>deletions = IndexSet [2], insertions = IndexSet [0, 1],
         modifications = IndexSet [], modifications_new = IndexSet []\<rparr> exn =
       [Invocation (Some f) this_object
          [this_object,
           Object (next_object ctx)
             [(''deletions'', Array [Number 2]),
              (''insertions'', Array [Number 0, Number 1]),
              (''modifications'', Array [])]]]"
  by (simp add: simple_callback_def Function_call_def create_collection_change_set_object
      add_listener_def add_notification_callback_def emplace_back_def)

text \<open>
  What a hook object's callback does with a change set: one call through
  \<open>before_fn\<close> with the instance, the deletions and the modifications, then one
  call through \<open>after_fn\<close> with the instance, the insertions and the new
  positions of the modifications. Neither call looks at whether the hook was
  stored.
\<close>

lemma hooks_delivery:
  "deliver cb (Changes cs) =
     [Invocation (before_fn cb) (protected_this cb)
        [protected_this cb, Array (map Number (as_indexes (deletions cs))),
         Array (map Number (as_indexes (modifications cs)))],
      Invocation (after_fn cb) (protected_this cb)
        [protected_this cb, Array (map Number (as_indexes (insertions cs))),
         Array (map Number (as_indexes (modifications_new cs)))]]"
  by (simp add: before_def after_def Function_call_def to_array_numbers)

text \<open>
  Claim C3 at a hook object that has \<open>after\<close> and no \<open>before\<close>: registration
  leaves \<open>before_fn\<close> empty, and the delivery of a change set still calls
  through the empty \<open>before_fn\<close> before it calls \<open>after\<close>.
\<close>

theorem absent_before_hook_is_called:
  "add_listener \<lparr>m_notification_tokens = [], next_token = 0\<rparr> (Object 1 [])
     (Object 9 [(''after'', Function 5)]) =
     Inr \<lparr>m_notification_tokens =
            [(Object 9 [(''after'', Function 5)],
              \<lparr>token_id = 0,
               subscribed = Hook_callback
                 \<lparr>protected_this = Object 1 [], before_fn = None,
                  after_fn = Some (Function 5), error_fn = None\<rparr>\<rparr>)],
          next_token = 1\<rparr>
   \<and> deliver \<lparr>protected_this = Object 1 [], before_fn = None,
              after_fn = Some (Function 5), error_fn = None\<rparr>
        (Changes \<lparr>deletions = IndexSet [2], insertions = IndexSet [0, 1],
                  modifications = IndexSet [3], modifications_new = IndexSet [4]\<rparr>) =
     [Invocation None (Object 1 []) [Object 1 [], Array [Number 2], Array [Number 3]],
      Invocation (Some (Function 5)) (Object 1 [])
        [Object 1 [], Array [Number 0, Number 1], Array [Number 4]]]"
  by (simp add: add_listener_def get_function_def add_notification_callback_def
      emplace_back_def before_def after_def Function_call_def to_array_numbers)

text \<open>
  Claim C4. With an \<open>error\<close> hook stored, a failure of the pipeline makes
  exactly one call: the hook, with the instance as receiver and two arguments,
  the instance and a string. The string is \<open>what()\<close> of the failure when it is
  a \<open>std::exception\<close>, and \<open>unknown error\<close> otherwise.
\<close>

theorem error_hook_message:
  "error_fn cb = Some f \<Longrightarrow>
     error cb e =
       [Invocation (Some f) (protected_this cb)
          [protected_this cb,
           Str (case what e of Some message \<Rightarrow> message | None \<Rightarrow> ''unknown error'')]]
     \<and> deliver cb (Failure e) = error cb e"
  by (simp add: error_def Function_call_def Value_from_string_def split: option.splits)

theorem error_hook_message_witness:
  "error \<lparr>protected_this = Object 1 [], before_fn = None, after_fn = None,
          error_fn = Some (Function 4)\<rparr> (Std_exception ''diff failed'') =
     [Invocation (Some (Function 4)) (Object 1 []) [Object 1 [], Str ''diff failed'']]
   \<and> error \<lparr>protected_this = Object 1 [], before_fn = None, after_fn = None,
          error_fn = Some (Function 4)\<rparr> Unknown_exception =
     [Invocation (Some (Function 4)) (Object 1 []) [Object 1 [], Str ''unknown error'']]"
  using error_hook_message [of "\<lparr>protected_this = Object 1 [], before_fn = None, after_fn = None,
            error_fn = Some (Function 4)\<rparr>" "Function 4" "Std_exception ''diff failed''"]
    error_hook_message [of "\<lparr>protected_this = Object 1 [], before_fn = None, after_fn = None,
            error_fn = Some (Function 4)\<rparr>" "Function 4" "Unknown_exception"]
  by simp

text \<open>
  Claim C10. Assigning the pointer the wrap already owns changes nothing and
  deletes nothing, so assigning twice is assigning once. Assigning another
  pointer makes the wrap own it and deletes the object owned before, if there
  was one.
\<close>

theorem assign_idempotent:
  "assign (w, deleted) (m_object w) = (w, deleted)
   \<and> assign (assign (w, deleted) p) p = assign (w, deleted) p
   \<and> (m_object w = Some old \<and> p \<noteq> Some old \<longrightarrow>
        assign (w, deleted) p = (w\<lparr>m_object := p\<rparr>, deleted @ [old]))
   \<and> (m_object w = None \<and> p \<noteq> None \<longrightarrow>
        assign (w, deleted) p = (w\<lparr>m_object := p\<rparr>, deleted))"
  by (auto simp add: assign_def unique_ptr_assign_def split: option.splits)

theorem assign_idempotent_witness:
  "assign (\<lparr>m_object = Some 3\<rparr>, []) (Some 8) = (\<lparr>m_object = Some 8\<rparr>, [3])
   \<and> assign (\<lparr>m_object = None\<rparr>, []) (Some 8) = (\<lparr>m_object = Some 8\<rparr>, [])
   \<and> assign (\<lparr>m_object = Some 3\<rparr>, []) (Some 3) = (\<lparr>m_object = Some 3\<rparr>, [])"
  using assign_idempotent [where w = "\<lparr>m_object = Some 3\<rparr>" and deleted = "[]" and old = 3 and p = "Some 8"]
    assign_idempotent [where w = "\<lparr>m_object = None\<rparr>" and deleted = "[]" and old = 3 and p = "Some 8"]
    assign_idempotent [where w = "\<lparr>m_object = Some 3\<rparr>" and deleted = "[]" and old = 3 and p = "Some 3"]
  by simp

section \<open>Properties of the object wrap and its trampolines\<close>

lemma add_index_names_upt:
  "add_index_names i len accumulator = accumulator @ map to_decimal [i..<len]"
proof (induction i len accumulator rule: add_index_names.induct)
  case (1 i len accumulator)
  show ?case
  proof (cases "i < len")
    case True
    with "1" show ?thesis
      by (subst add_index_names.simps) (simp add: upt_conv_Cons)
  next
    case False
    then show ?thesis
      by (subst add_index_names.simps) simp
  qed
qed

lemma add_names_append: "add_names accumulator names = accumulator @ names"
  by (induction names arbitrary: accumulator) simp_all

text \<open>
  Claim C5. Take a class whose index getter is the trampoline of a native getter
  \<open>F\<close>, and a property name that stands for the index \<open>i\<close>. When \<open>F\<close>
  signals that \<open>i\<close> is out of range, the trampoline and \<open>get_property\<close>
  both return \<open>undefined\<close> and set no exception; when \<open>F\<close> returns, both
  return what \<open>F\<close> put in the return value and set no exception. A name whose
  index is rejected as out of range before the getter is reached reads as
  \<open>undefined\<close> too. No case ends with an exception leaving the read.
\<close>

theorem index_read_out_of_range_is_undefined:
  "(index_accessor_getter s_class = Some (wrap_index_getter F)
      \<and> vpi property = Inr i \<and> snd (F object i) = Some (Out_of_range m) \<longrightarrow>
        wrap_index_getter F object i = Abi_return (Some Undefined) None
        \<and> get_property vpi s_class object property = Abi_return (Some Undefined) None)
   \<and> (index_accessor_getter s_class = Some (wrap_index_getter F)
      \<and> vpi property = Inr i \<and> snd (F object i) = None \<longrightarrow>
        wrap_index_getter F object i = Abi_return (fst (F object i)) None
        \<and> get_property vpi s_class object property = Abi_return (fst (F object i)) None)
   \<and> (index_accessor_getter s_class = Some index_getter
      \<and> vpi property = Inl (Out_of_range m) \<longrightarrow>
        get_property vpi s_class object property = Abi_return (Some Undefined) None)"
  by (cases "F object i")
    (simp add: get_property_def wrap_index_getter_def Value_from_undefined_def)

theorem index_read_out_of_range_is_undefined_witness:
  "wrap_index_getter
     (\<lambda>object index. if unat index < length object then (Some (object ! unat index), None)
        else (None, Some (Out_of_range ''index out of range'')))
     [Str ''a'', Str ''b''] 5 = Abi_return (Some Undefined) None
   \<and> get_property
     (\<lambda>name. if name = ''5'' then Inr 5 else if name = ''1'' then Inr 1
        else if name = ''-1'' then Inl (Out_of_range ''negative index'')
        else Inl (Invalid_argument name))
     \<lparr>constructor = None, properties = [],
      index_accessor_getter = Some (wrap_index_getter
        (\<lambda>object index. if unat index < length object then (Some (object ! unat index), None)
           else (None, Some (Out_of_range ''index out of range'')))),
      index_accessor_setter = None,
      string_accessor_getter = None, string_accessor_setter = None,
      string_accessor_enumerator = None\<rparr>
     [Str ''a'', Str ''b''] ''5'' = Abi_return (Some Undefined) None
   \<and> get_property
     (\<lambda>name. if name = ''5'' then Inr 5 else if name = ''1'' then Inr 1
        else if name = ''-1'' then Inl (Out_of_range ''negative index'')
        else Inl (Invalid_argument name))
     \<lparr>constructor = None, properties = [],
      index_accessor_getter = Some (wrap_index_getter
        (\<lambda>object index. if unat index < length object then (Some (object ! unat index), None)
           else (None, Some (Out_of_range ''index out of range'')))),
      index_accessor_setter = None,
      string_accessor_getter = None, string_accessor_setter = None,
      string_accessor_enumerator = None\<rparr>
     [Str ''a'', Str ''b''] ''1'' = Abi_return (Some (Str ''b'')) None
   \<and> get_property
     (\<lambda>name. if name = ''5'' then Inr 5 else if name = ''1'' then Inr 1
        else if name = ''-1'' then Inl (Out_of_range ''negative index'')
        else Inl (Invalid_argument name))
     \<lparr>constructor = None, properties = [],
      index_accessor_getter = Some (wrap_index_getter
        (\<lambda>object index. if unat index < length object then (Some (object ! unat index), None)
           else (None, Some (Out_of_range ''index out of range'')))),
      index_accessor_setter = None,
      string_accessor_getter = None, string_accessor_setter = None,
      string_accessor_enumerator = None\<rparr>
     [Str ''a'', Str ''b''] ''-1'' = Abi_return (Some Undefined) None"
  using index_read_out_of_range_is_undefined
    [where F = "\<lambda>object index. if unat index < length object then (Some (object ! unat index), None)
           else (None, Some (Out_of_range ''index out of range''))"
      and object = "[Str ''a'', Str ''b'']" and i = 5 and property = "''5''"
      and m = "''index out of range''"
      and vpi = "\<lambda>name. if name = ''5'' then Inr 5 else if name = ''1'' then Inr 1
        else if name = ''-1'' then Inl (Out_of_range ''negative index'')
        else Inl (Invalid_argument name)"
      and s_class = "\<lparr>constructor = None, properties = [],
      index_accessor_getter = Some (wrap_index_getter
        (\<lambda>object index. if unat index < length object then (Some (object ! unat index), None)
           else (None, Some (Out_of_range ''index out of range'')))),
      index_accessor_setter = None,
      string_accessor_getter = None, string_accessor_setter = None,
      string_accessor_enumerator = None\<rparr>"]
    index_read_out_of_range_is_undefined
    [where F = "\<lambda>object index. if unat index < length object then (Some (object ! unat index), None)
           else (None, Some (Out_of_range ''index out of range''))"
      and object = "[Str ''a'', Str ''b'']" and i = 1 and property = "''1''"
      and vpi = "\<lambda>name. if name = ''5'' then Inr 5 else if name = ''1'' then Inr 1
        else if name = ''-1'' then Inl (Out_of_range ''negative index'')
        else Inl (Invalid_argument name)"
      and s_class = "\<lparr>constructor = None, properties = [],
      index_accessor_getter = Some (wrap_index_getter
        (\<lambda>object index. if unat index < length object then (Some (object ! unat index), None)
           else (None, Some (Out_of_range ''index out of range'')))),
      index_accessor_setter = None,
      string_accessor_getter = None, string_accessor_setter = None,
      string_accessor_enumerator = None\<rparr>"]
    index_read_out_of_range_is_undefined
    [where object = "[Str ''a'', Str ''b'']" and property = "''-1''"
      and m = "''negative index''"
      and index_getter = "wrap_index_getter
        (\<lambda>object index. if unat index < length object then (Some (object ! unat index), None)
           else (None, Some (Out_of_range ''index out of range'')))"
      and vpi = "\<lambda>name. if name = ''5'' then Inr 5 else if name = ''1'' then Inr 1
        else if name = ''-1'' then Inl (Out_of_range ''negative index'')
        else Inl (Invalid_argument name)"
      and s_class = "\<lparr>constructor = None, properties = [],
      index_accessor_getter = Some (wrap_index_getter
        (\<lambda>object index. if unat index < length object then (Some (object ! unat index), None)
           else (None, Some (Out_of_range ''index out of range'')))),
      index_accessor_setter = None,
      string_accessor_getter = None, string_accessor_setter = None,
      string_accessor_enumerator = None\<rparr>"]
  by simp

text \<open>
  Claim C6, as the code has it. For the method, getter, setter, index-getter,
  index-setter, string-getter and string-setter trampolines and every
  \<open>std::exception\<close> the native callback throws, the trampoline returns
  normally: the index getter answers \<open>std::out_of_range\<close> with \<open>undefined\<close>
  and no exception, and every other case writes an engine error carrying the
  message of the exception to the exception slot.
\<close>

theorem trampolines_convert_std_exceptions:
  "what e = Some message \<Longrightarrow>
     (F1 this_object args = (r1, Some e) \<longrightarrow>
        wrap_method F1 this_object args = Abi_return r1 (Some (Error_value message)))
   \<and> (F2 object = (r2, Some e) \<longrightarrow>
        wrap_property_getter F2 object property = Abi_return r2 (Some (Error_value message)))
   \<and> (F3 object v = (object', Some e) \<longrightarrow>
        wrap_property_setter F3 object property v =
          (object', Abi_return False (Some (Error_value message))))
   \<and> (F4 object i = (r4, Some e) \<longrightarrow>
        wrap_index_getter F4 object i =
          (case e of Out_of_range m \<Rightarrow> Abi_return (Some Undefined) None
           | _ \<Rightarrow> Abi_return r4 (Some (Error_value message))))
   \<and> (F5 object i v = (object', Inl e) \<longrightarrow>
        wrap_index_setter F5 object i v =
          (object', Abi_return False (Some (Error_value message))))
   \<and> (F6 object property = (r6, Some e) \<longrightarrow>
        wrap_string_getter F6 object property = Abi_return r6 (Some (Error_value message)))
   \<and> (F7 object property v = (object', Inl e) \<longrightarrow>
        wrap_string_setter F7 object property v =
          (object', Abi_return False (Some (Error_value message))))"
  by (cases e)
    (simp_all add: wrap_method_def wrap_property_getter_def wrap_property_setter_def
      wrap_index_getter_def wrap_index_setter_def wrap_string_getter_def wrap_string_setter_def
      catch_std_exception_def Exception_value_def Value_from_undefined_def)


theorem trampolines_convert_std_exceptions_witness:
  "wrap_method (\<lambda>this_object args. (None, Some (Std_exception ''boom''))) () [] =
     Abi_return None (Some (Error_value ''boom''))
   \<and> wrap_property_getter (\<lambda>object. (None, Some (Std_exception ''boom''))) () ''size'' =
     Abi_return None (Some (Error_value ''boom''))
   \<and> wrap_property_setter (\<lambda>object v. (object, Some (Std_exception ''boom''))) () ''size'' Undefined =
     ((), Abi_return False (Some (Error_value ''boom'')))
   \<and> wrap_index_getter (\<lambda>object index. (None, Some (Std_exception ''boom''))) () 0 =
     Abi_return None (Some (Error_value ''boom''))
   \<and> wrap_index_setter (\<lambda>object index v. (object, Inl (Std_exception ''boom''))) () 0 Undefined =
     ((), Abi_return False (Some (Error_value ''boom'')))
   \<and> wrap_string_getter (\<lambda>object property. (None, Some (Std_exception ''boom''))) () ''size'' =
     Abi_return None (Some (Error_value ''boom''))
   \<and> wrap_string_setter (\<lambda>object property v. (object, Inl (Std_exception ''boom''))) () ''size'' Undefined =
     ((), Abi_return False (Some (Error_value ''boom'')))"
  using trampolines_convert_std_exceptions
    [where e = "Std_exception ''boom''" and message = "''boom''"
      and ?F1.0 = "\<lambda>this_object args. (None, Some (Std_exception ''boom''))"
      and this_object = "()" and args = "[]" and ?r1.0 = None
      and ?F2.0 = "\<lambda>object. (None, Some (Std_exception ''boom''))"
      and object = "()" and ?r2.0 = None and property = "''size''"
      and ?F3.0 = "\<lambda>object v. (object, Some (Std_exception ''boom''))"
      and v = Undefined and object' = "()"
      and ?F4.0 = "\<lambda>object index. (None, Some (Std_exception ''boom''))"
      and i = 0 and ?r4.0 = None
      and ?F5.0 = "\<lambda>object index v. (object, Inl (Std_exception ''boom''))"
      and ?F6.0 = "\<lambda>object property. (None, Some (Std_exception ''boom''))"
      and ?r6.0 = None
      and ?F7.0 = "\<lambda>object property v. (object, Inl (Std_exception ''boom''))"]
  by simp

text \<open>
  Claim C6, as it is stated, fails by design in two places: the index-getter
  trampoline turns \<open>std::out_of_range\<close> into \<open>undefined\<close> and writes no
  error, and a thrown value that is not a \<open>std::exception\<close> is not caught.
\<close>

theorem trampoline_counterexample:
  "wrap_index_getter (\<lambda>object index. (None, Some (Out_of_range ''index 5''))) () 5 =
     Abi_return (Some Undefined) None
   \<and> wrap_method (\<lambda>this_object args. (None, Some Unknown_exception)) () [] =
     Unwinds Unknown_exception"
  by (simp add: wrap_index_getter_def wrap_method_def catch_std_exception_def
      Value_from_undefined_def)



text \<open>
  Claim C8, as the code has it. Without a constructor callback, \<open>construct\<close>
  returns no object and sets the error \<open>Illegal constructor\<close>. When the
  callback throws a \<open>std::exception\<close>, \<open>construct\<close> sets an engine error
  carrying its message and returns the instance it allocated exactly as the
  callback left it: still empty when the callback had assigned no native object.
\<close>

theorem construct_failures:
  "(constructor s_class = None \<longrightarrow>
      construct s_class args = Abi_return None (Some (Error_value ''Illegal constructor'')))
   \<and> (constructor s_class = Some native_constructor
        \<and> native_constructor (create None) args = (this_object, Some e)
        \<and> what e = Some message \<longrightarrow>
      construct s_class args = Abi_return (Some this_object) (Some (Error_value message)))
   \<and> (constructor s_class = Some native_constructor
        \<and> native_constructor (create None) args = (create None, Some e)
        \<and> what e = Some message \<longrightarrow>
      construct s_class args =
        Abi_return (Some \<lparr>m_object = None\<rparr>) (Some (Error_value message)))"
  by (simp add: construct_def catch_std_exception_def Exception_value_def create_def)

theorem construct_failures_witness:
  "construct
     \<lparr>constructor = None, properties = [], index_accessor_getter = None,
      index_accessor_setter = None, string_accessor_getter = None,
      string_accessor_setter = None, string_accessor_enumerator = None\<rparr> [Number 1] =
     Abi_return None (Some (Error_value ''Illegal constructor''))
   \<and> construct
     \<lparr>constructor = Some (\<lambda>this_object args. (this_object, Some (Std_exception ''bad argument''))),
      properties = [], index_accessor_getter = None,
      index_accessor_setter = None, string_accessor_getter = None,
      string_accessor_setter = None, string_accessor_enumerator = None\<rparr> [Number 1] =
     Abi_return (Some \<lparr>m_object = None\<rparr>) (Some (Error_value ''bad argument''))"
  using construct_failures
    [where s_class = "\<lparr>constructor = None, properties = [], index_accessor_getter = None,
      index_accessor_setter = None, string_accessor_getter = None,
      string_accessor_setter = None, string_accessor_enumerator = None\<rparr>"
      and args = "[Number 1]"]
    construct_failures
    [where s_class = "\<lparr>constructor = Some (\<lambda>this_object args. (this_object, Some (Std_exception ''bad argument''))),
      properties = [], index_accessor_getter = None,
      index_accessor_setter = None, string_accessor_getter = None,
      string_accessor_setter = None, string_accessor_enumerator = None\<rparr>"
      and args = "[Number 1]"
      and native_constructor = "\<lambda>this_object args. (this_object, Some (Std_exception ''bad argument''))"
      and this_object = "\<lparr>m_object = None\<rparr>"
      and e = "Std_exception ''bad argument''" and message = "''bad argument''"]
  by (simp add: create_def)

text \<open>
  Claim C8, as it is stated, fails for a constructor callback that assigns a
  native object and then throws (the instance comes back owning the object), and
  for one that throws a value that is not a \<open>std::exception\<close> (nothing is
  translated: the exception leaves \<open>construct\<close>).
\<close>

theorem construct_counterexample:
  "construct
     \<lparr>constructor = Some (\<lambda>this_object args.
         (this_object\<lparr>m_object := Some 1\<rparr>, Some (Std_exception ''bad argument''))),
      properties = [], index_accessor_getter = None, index_accessor_setter = None,
      string_accessor_getter = None, string_accessor_setter = None,
      string_accessor_enumerator = None\<rparr> [] =
     Abi_return (Some \<lparr>m_object = Some 1\<rparr>) (Some (Error_value ''bad argument''))
   \<and> construct
     \<lparr>constructor = Some (\<lambda>this_object args. (this_object, Some Unknown_exception)),
      properties = [], index_accessor_getter = None, index_accessor_setter = None,
      string_accessor_getter = None, string_accessor_setter = None,
      string_accessor_enumerator = None\<rparr> [] =
     Unwinds Unknown_exception"
  by (simp add: construct_def catch_std_exception_def Exception_value_def create_def)

text \<open>
  The order of enumeration, and the failure that is swallowed: the index names
  \<open>0\<close> to \<open>length - 1\<close> come first, then the names the string enumerator
  returns; a \<open>std::exception\<close> from the length query adds no index name and
  ends the enumeration normally.
\<close>

lemma enumeration_order:
  "index_accessor_getter s_class = Some index_getter \<Longrightarrow>
   vgl object = Inr len \<Longrightarrow>
   string_accessor_enumerator s_class = Some (wrap_string_enumerator F) \<Longrightarrow>
   F object = Inr names \<Longrightarrow>
   get_property_names vgl s_class object accumulator =
     Inr (accumulator @ map to_decimal [0..<unat len] @ names)"
  by (simp add: get_property_names_def add_index_names_upt wrap_string_enumerator_def
      add_names_append)

lemma enumeration_swallows_length_failure:
  "index_accessor_getter s_class = Some index_getter \<Longrightarrow>
   vgl object = Inl e \<Longrightarrow> what e = Some message \<Longrightarrow>
   string_accessor_enumerator s_class = None \<Longrightarrow>
   get_property_names vgl s_class object accumulator = Inr accumulator"
  by (simp add: get_property_names_def)

text \<open>
  Claim C9 at a class with an index getter and a string enumerator whose native
  callback throws: the enumerator's trampoline has no handler and
  \<open>get_property_names\<close> calls it outside its \<open>try\<close> block, so the exception
  leaves the enumeration.
\<close>

theorem enumerator_exception_escapes:
  "wrap_string_enumerator (\<lambda>object. Inl (Std_exception ''enumeration failed'')) () [] =
     Inl (Std_exception ''enumeration failed'')
   \<and> get_property_names (\<lambda>object. Inr 2)
     \<lparr>constructor = None, properties = [],
      index_accessor_getter = Some (wrap_index_getter (\<lambda>object index. (Some (Number 0), None))),
      index_accessor_setter = None,
      string_accessor_getter = None, string_accessor_setter = None,
      string_accessor_enumerator =
        Some (wrap_string_enumerator (\<lambda>object. Inl (Std_exception ''enumeration failed'')))\<rparr>
     () [] = Inl (Std_exception ''enumeration failed'')"
  by (simp add: get_property_names_def wrap_string_enumerator_def)

end
